theory Spec2Isabelle
  imports Main "HOL-Library.Sublist"
begin

section \<open>Parsed documents\<close>

text \<open>
  \<^verbatim>\<open>yaml.safe_load\<close> returns an untyped tree: scalars, sequences (Python lists) and
  mappings (Python dicts). A mapping is kept as the list of its items in document order;
  its keys are scalars, since the loader refuses a key that is not hashable. The scalars
  covered are \<^verbatim>\<open>None\<close>, booleans, integers and strings; floats, timestamps and binary
  values are not part of the model. A string is the list of its characters. A file is
  read once per \<^verbatim>\<open>open\<close> and does not change during a run.
\<close>

datatype scalar = SNone | SBool bool | SInt int | SStr string

datatype yaml = YScalar scalar | YList "yaml list" | YDict "(scalar \<times> yaml) list"

abbreviation YStr :: "string \<Rightarrow> yaml" where
  "YStr s \<equiv> YScalar (SStr s)"

abbreviation YNone :: yaml where
  "YNone \<equiv> YScalar SNone"

text \<open>
  The exceptions that can occur. \<^verbatim>\<open>UnicodeDecodeError\<close> (raised while reading a file
  that is not valid text) is a subclass of \<^verbatim>\<open>ValueError\<close> in Python; all of them are
  subclasses of \<^verbatim>\<open>Exception\<close>.
\<close>

datatype py_exn =
    OSError
  | YAMLError
  | UnicodeDecodeError
  | TypeError
  | AttributeError
  | KeyError string
  | ValueError string

fun is_ValueError :: "py_exn \<Rightarrow> bool" where
  "is_ValueError (ValueError m) = True"
| "is_ValueError UnicodeDecodeError = True"
| "is_ValueError e = False"

section \<open>The Python operations the program uses\<close>

definition exn_bind :: "py_exn + 'a \<Rightarrow> ('a \<Rightarrow> py_exn + 'b) \<Rightarrow> py_exn + 'b" where
  "exn_bind m f = (case m of Inl e \<Rightarrow> Inl e | Inr a \<Rightarrow> f a)"

text \<open>Equality \<^verbatim>\<open>==\<close>: booleans compare as the integers 0 and 1.\<close>

fun sc_num :: "scalar \<Rightarrow> int option" where
  "sc_num (SBool b) = Some (if b then 1 else 0)"
| "sc_num (SInt i) = Some i"
| "sc_num s = None"

definition sc_eq :: "scalar \<Rightarrow> scalar \<Rightarrow> bool" where
  "sc_eq a b =
     (case (sc_num a, sc_num b) of
        (Some i, Some j) \<Rightarrow> i = j
      | (None, None) \<Rightarrow> a = b
      | _ \<Rightarrow> False)"

fun py_eq :: "yaml \<Rightarrow> yaml \<Rightarrow> bool"
  and py_eq_list :: "yaml list \<Rightarrow> yaml list \<Rightarrow> bool"
  and py_eq_item :: "scalar \<Rightarrow> yaml \<Rightarrow> (scalar \<times> yaml) list \<Rightarrow> bool"
  and py_eq_items :: "(scalar \<times> yaml) list \<Rightarrow> (scalar \<times> yaml) list \<Rightarrow> bool"
where
  "py_eq (YScalar a) (YScalar b) = sc_eq a b"
| "py_eq (YList xs) (YList ys) = py_eq_list xs ys"
| "py_eq (YDict a) (YDict b) = (length a = length b \<and> py_eq_items a b)"
| "py_eq (YScalar a) (YList ys) = False"
| "py_eq (YScalar a) (YDict b) = False"
| "py_eq (YList xs) (YScalar b) = False"
| "py_eq (YList xs) (YDict b) = False"
| "py_eq (YDict a) (YScalar b) = False"
| "py_eq (YDict a) (YList ys) = False"
| "py_eq_list [] [] = True"
| "py_eq_list (x # xs) (y # ys) = (py_eq x y \<and> py_eq_list xs ys)"
| "py_eq_list [] (y # ys) = False"
| "py_eq_list (x # xs) [] = False"
| "py_eq_item k v [] = False"
| "py_eq_item k v ((k', v') # r) = (if sc_eq k k' then py_eq v v' else py_eq_item k v r)"
| "py_eq_items [] b = True"
| "py_eq_items ((k, v) # a) b = (py_eq_item k v b \<and> py_eq_items a b)"

text \<open>Truth value of an object, as \<^verbatim>\<open>not x\<close> and \<^verbatim>\<open>if x:\<close> take it.\<close>

fun py_bool :: "yaml \<Rightarrow> bool" where
  "py_bool (YScalar SNone) = False"
| "py_bool (YScalar (SBool b)) = b"
| "py_bool (YScalar (SInt i)) = (i \<noteq> 0)"
| "py_bool (YScalar (SStr s)) = (s \<noteq> [])"
| "py_bool (YList xs) = (xs \<noteq> [])"
| "py_bool (YDict kvs) = (kvs \<noteq> [])"

text \<open>\<^verbatim>\<open>k in c\<close> for a string \<^verbatim>\<open>k\<close>: key test on a dict, membership in a list,
  substring test on a string, \<^verbatim>\<open>TypeError\<close> on anything else.\<close>

fun str_in :: "string \<Rightarrow> yaml \<Rightarrow> py_exn + bool" where
  "str_in k (YDict kvs) = Inr (SStr k \<in> set (map fst kvs))"
| "str_in k (YList xs) = Inr (YStr k \<in> set xs)"
| "str_in k (YScalar (SStr s)) = Inr (sublist k s)"
| "str_in k (YScalar s) = Inl TypeError"

text \<open>\<^verbatim>\<open>c[k]\<close> for a string \<^verbatim>\<open>k\<close>: only a dict can be indexed by a string.\<close>

fun getitem_str :: "yaml \<Rightarrow> string \<Rightarrow> py_exn + yaml" where
  "getitem_str (YDict kvs) k =
     (case map_of kvs (SStr k) of None \<Rightarrow> Inl (KeyError k) | Some v \<Rightarrow> Inr v)"
| "getitem_str c k = Inl TypeError"

text \<open>\<^verbatim>\<open>c.get(k, d)\<close>: a method of dicts only.\<close>

fun py_get :: "yaml \<Rightarrow> string \<Rightarrow> yaml \<Rightarrow> py_exn + yaml" where
  "py_get (YDict kvs) k d = Inr (case map_of kvs (SStr k) of None \<Rightarrow> d | Some v \<Rightarrow> v)"
| "py_get c k d = Inl AttributeError"

text \<open>\<^verbatim>\<open>c.items()\<close>.\<close>

fun py_items :: "yaml \<Rightarrow> py_exn + (scalar \<times> yaml) list" where
  "py_items (YDict kvs) = Inr kvs"
| "py_items c = Inl AttributeError"

text \<open>\<^verbatim>\<open>len(c)\<close>.\<close>

fun py_len :: "yaml \<Rightarrow> py_exn + nat" where
  "py_len (YDict kvs) = Inr (length kvs)"
| "py_len (YList xs) = Inr (length xs)"
| "py_len (YScalar (SStr s)) = Inr (length s)"
| "py_len (YScalar s) = Inl TypeError"

text \<open>Iteration (\<^verbatim>\<open>for x in c\<close>): the elements of a list, the keys of a dict, the
  characters of a string.\<close>

fun py_iter :: "yaml \<Rightarrow> py_exn + yaml list" where
  "py_iter (YList xs) = Inr xs"
| "py_iter (YDict kvs) = Inr (map (\<lambda>kv. YScalar (fst kv)) kvs)"
| "py_iter (YScalar (SStr s)) = Inr (map (\<lambda>c. YStr [c]) s)"
| "py_iter (YScalar s) = Inl TypeError"

text \<open>\<^verbatim>\<open>sep.join(xs)\<close>: every item has to be a string.\<close>

fun join_strs :: "string \<Rightarrow> string list \<Rightarrow> string" where
  "join_strs sep [] = []"
| "join_strs sep [x] = x"
| "join_strs sep (x # y # ys) = x @ sep @ join_strs sep (y # ys)"

fun strs_of :: "yaml list \<Rightarrow> py_exn + string list" where
  "strs_of [] = Inr []"
| "strs_of (YScalar (SStr s) # xs) = exn_bind (strs_of xs) (\<lambda>ss. Inr (s # ss))"
| "strs_of (x # xs) = Inl TypeError"

definition join_list :: "string \<Rightarrow> yaml list \<Rightarrow> py_exn + string" where
  "join_list sep xs = exn_bind (strs_of xs) (\<lambda>ss. Inr (join_strs sep ss))"

definition str_join :: "string \<Rightarrow> yaml \<Rightarrow> py_exn + string" where
  "str_join sep c = exn_bind (py_iter c) (join_list sep)"

text \<open>\<^verbatim>\<open>set(xs)\<close>: \<^verbatim>\<open>TypeError\<close> when an element is not hashable (a list or a dict).
  The set is kept as the list of its elements, one for each class of equal values.\<close>

definition set_contains :: "scalar list \<Rightarrow> scalar \<Rightarrow> bool" where
  "set_contains S a = (\<exists>b \<in> set S. sc_eq b a)"

fun set_add :: "scalar list \<Rightarrow> yaml \<Rightarrow> py_exn + scalar list" where
  "set_add S (YScalar a) = Inr (if set_contains S a then S else S @ [a])"
| "set_add S x = Inl TypeError"

fun set_from :: "scalar list \<Rightarrow> yaml list \<Rightarrow> py_exn + scalar list" where
  "set_from S [] = Inr S"
| "set_from S (x # xs) = exn_bind (set_add S x) (\<lambda>S'. set_from S' xs)"

definition py_set :: "yaml \<Rightarrow> py_exn + scalar list" where
  "py_set c = exn_bind (py_iter c) (set_from [])"

text \<open>\<^verbatim>\<open>x not in S\<close> for a set \<^verbatim>\<open>S\<close>: \<^verbatim>\<open>x\<close> is hashed first.\<close>

fun not_in_set :: "yaml \<Rightarrow> scalar list \<Rightarrow> py_exn + bool" where
  "not_in_set (YScalar a) S = Inr (\<not> set_contains S a)"
| "not_in_set x S = Inl TypeError"

text \<open>\<^verbatim>\<open>str(v)\<close>, as an f-string formats a value: a string is itself; the text of any
  other value is Python's, given by the parameter \<open>r\<close>.\<close>

fun py_str :: "(yaml \<Rightarrow> string) \<Rightarrow> yaml \<Rightarrow> string" where
  "py_str r (YScalar (SStr s)) = s"
| "py_str r v = r v"

text \<open>\<^verbatim>\<open>not isinstance(v, list) or len(v) < 1\<close>.\<close>

definition not_nonempty_list :: "yaml \<Rightarrow> bool" where
  "not_nonempty_list v = (case v of YList xs \<Rightarrow> length xs < 1 | _ \<Rightarrow> True)"

text \<open>\<^verbatim>\<open>isinstance(v, str)\<close>.\<close>

definition isinstance_str :: "yaml \<Rightarrow> bool" where
  "isinstance_str v = (case v of YScalar (SStr s) \<Rightarrow> True | _ \<Rightarrow> False)"

text \<open>\<^verbatim>\<open>path.endswith((".yaml", ".yml"))\<close>.\<close>

definition endswith_yaml :: "string \<Rightarrow> bool" where
  "endswith_yaml path = (suffix ''.yaml'' path \<or> suffix ''.yml'' path)"

section \<open>Effects: the console, the file system, exceptions\<close>

text \<open>
  What a run does to the outside world is the sequence of its events: a file it opens,
  a line it prints on the console, a table it prints. A printed line is the text given
  to \<^verbatim>\<open>console.print\<close>; \<open>WithExn p e\<close> stands for the text \<open>p\<close> followed by
  \<^verbatim>\<open>str(e)\<close>. A table is its column headers and the rows given to \<^verbatim>\<open>add_row\<close>.
  What the console library then does with a text or a cell (styles, markup, layout, the
  objects it refuses to render) is not modelled. A computation yields the events so far
  and either the exception it raised or its value.
\<close>

datatype line = Plain string | WithExn string py_exn

datatype event =
    Opened string
  | Printed line
  | PrintedTable "string list" "yaml list list"

type_synonym 'a io = "event list \<times> (py_exn + 'a)"

definition ret :: "'a \<Rightarrow> 'a io" where
  "ret a = ([], Inr a)"

definition raise :: "py_exn \<Rightarrow> 'a io" where
  "raise e = ([], Inl e)"

definition lift :: "py_exn + 'a \<Rightarrow> 'a io" where
  "lift m = ([], m)"

definition io_bind :: "'a io \<Rightarrow> ('a \<Rightarrow> 'b io) \<Rightarrow> 'b io" where
  "io_bind m f =
     (case snd m of
        Inl e \<Rightarrow> (fst m, Inl e)
      | Inr a \<Rightarrow> (fst m @ fst (f a), snd (f a)))"

definition console_print :: "line \<Rightarrow> unit io" where
  "console_print l = ([Printed l], Inr ())"

definition print_table :: "string list \<Rightarrow> yaml list list \<Rightarrow> unit io" where
  "print_table cols rows = ([PrintedTable cols rows], Inr ())"

text \<open>
  \<^verbatim>\<open>with open(file_path, "r") as file: content = yaml.safe_load(file)\<close>. What is on
  disk is the parameter \<open>load\<close>: for each path, the tree the loader returns or the
  exception that opening, reading or parsing raises.
\<close>

definition open_and_load :: "(string \<Rightarrow> py_exn + yaml) \<Rightarrow> string \<Rightarrow> yaml io" where
  "open_and_load load file_path = ([Opened file_path], load file_path)"

section \<open>\<^verbatim>\<open>protocol_read\<close>\<close>

text \<open>The inner loop over the transitions, for one state: the pair
  \<^verbatim>\<open>(transition_info, event_info)\<close>.\<close>

fun scan_transitions ::
  "(yaml \<Rightarrow> string) \<Rightarrow> yaml \<Rightarrow> yaml list \<Rightarrow> py_exn + (string list \<times> yaml list)" where
  "scan_transitions r state [] = Inr ([], [])"
| "scan_transitions r state (transition # ts) =
     exn_bind (py_get transition ''from'' YNone) (\<lambda>f.
       if py_eq f state then
         exn_bind (py_get transition ''from'' YNone) (\<lambda>f'.
         exn_bind (py_get transition ''to'' YNone) (\<lambda>t.
         exn_bind (py_get transition ''event'' (YStr ''N/A'')) (\<lambda>ev.
         exn_bind (scan_transitions r state ts) (\<lambda>(transition_info, event_info).
           Inr ((''('' @ py_str r f' @ '' -> '' @ py_str r t @ '')'') # transition_info,
                ev # event_info)))))
       else scan_transitions r state ts)"

text \<open>The row of one state.\<close>

definition state_row :: "(yaml \<Rightarrow> string) \<Rightarrow> yaml \<Rightarrow> yaml \<Rightarrow> py_exn + yaml list" where
  "state_row r transitions state =
     exn_bind (py_iter transitions) (\<lambda>ts.
     exn_bind (scan_transitions r state ts) (\<lambda>(transition_info, event_info).
       if transition_info \<noteq> [] then
         exn_bind (join_list '' | '' event_info) (\<lambda>events.
           Inr [state, YStr events, YStr (join_strs '' | '' transition_info)])
       else Inr [state, YStr ''No transitions'', YStr ''No event'']))"

fun state_rows :: "(yaml \<Rightarrow> string) \<Rightarrow> yaml \<Rightarrow> yaml list \<Rightarrow> py_exn + yaml list list" where
  "state_rows r transitions [] = Inr []"
| "state_rows r transitions (state # states) =
     exn_bind (state_row r transitions state) (\<lambda>row.
     exn_bind (state_rows r transitions states) (\<lambda>rows. Inr (row # rows)))"

definition protocol_read ::
  "(yaml \<Rightarrow> string) \<Rightarrow> (string \<Rightarrow> py_exn + yaml) \<Rightarrow> string \<Rightarrow> unit io" where
  "protocol_read r load file_path =
     io_bind (open_and_load load file_path) (\<lambda>content.
     io_bind (lift (py_get content ''protocol_name'' (YList []))) (\<lambda>protocol_name.
     io_bind (console_print (Plain (''Protocol: '' @ py_str r protocol_name))) (\<lambda>_.
     io_bind (lift (py_get content ''states'' (YList []))) (\<lambda>states.
     io_bind (lift (py_get content ''transitions'' (YList []))) (\<lambda>transitions.
     io_bind (lift (py_iter states)) (\<lambda>sts.
     io_bind (lift (state_rows r transitions sts)) (\<lambda>rows.
       print_table [''State'', ''Event'', ''Transition''] rows)))))))"

section \<open>\<^verbatim>\<open>validate_protocol_file\<close>\<close>

text \<open>The character \<^verbatim>\<open>'\<close>, which the messages quote names with.\<close>

definition q :: string where
  "q = [CHR 0x27]"

text \<open>A loop that can leave the function yields \<open>Some b\<close> when it executed
  \<^verbatim>\<open>return b\<close>, and \<open>None\<close> when it ran to its end.\<close>

fun required_keys_loop :: "yaml \<Rightarrow> string list \<Rightarrow> bool option io" where
  "required_keys_loop content [] = ret None"
| "required_keys_loop content (key # keys) =
     io_bind (lift (str_in key content)) (\<lambda>present.
       if \<not> present then
         io_bind (console_print (Plain (''[bold red]Error:[/bold red] Missing key: '' @ key)))
           (\<lambda>_. ret (Some False))
       else required_keys_loop content keys)"

text \<open>\<^verbatim>\<open>any(t["from"] == state for t in transitions)\<close>: stops at the first match.\<close>

fun any_from :: "yaml \<Rightarrow> yaml list \<Rightarrow> py_exn + bool" where
  "any_from state [] = Inr False"
| "any_from state (t # ts) =
     exn_bind (getitem_str t ''from'') (\<lambda>f.
       if py_eq f state then Inr True else any_from state ts)"

text \<open>The comprehension
  \<^verbatim>\<open>[state for state in states if not any(... for t in transitions)]\<close>.\<close>

fun states_without :: "yaml \<Rightarrow> yaml list \<Rightarrow> py_exn + yaml list" where
  "states_without transitions [] = Inr []"
| "states_without transitions (state # states) =
     exn_bind (py_iter transitions) (\<lambda>ts.
     exn_bind (any_from state ts) (\<lambda>found.
     exn_bind (states_without transitions states) (\<lambda>rest.
       Inr (if \<not> found then state # rest else rest))))"

definition state_with_no_transitions :: "yaml \<Rightarrow> yaml \<Rightarrow> py_exn + yaml list" where
  "state_with_no_transitions states transitions =
     exn_bind (py_iter states) (states_without transitions)"

text \<open>\<^verbatim>\<open>all(k in transition for k in ["from", "to", "event"])\<close>: stops at the first
  key that is absent.\<close>

fun all_keys_in :: "yaml \<Rightarrow> string list \<Rightarrow> py_exn + bool" where
  "all_keys_in transition [] = Inr True"
| "all_keys_in transition (k # ks) =
     exn_bind (str_in k transition) (\<lambda>present.
       if present then all_keys_in transition ks else Inr False)"

text \<open>\<^verbatim>\<open>transition["from"] not in state_set or transition["to"] not in state_set\<close>.\<close>

definition invalid_state :: "scalar list \<Rightarrow> yaml \<Rightarrow> py_exn + bool" where
  "invalid_state state_set transition =
     exn_bind (getitem_str transition ''from'') (\<lambda>f.
     exn_bind (not_in_set f state_set) (\<lambda>a.
       if a then Inr True
       else exn_bind (getitem_str transition ''to'') (\<lambda>t. not_in_set t state_set)))"

text \<open>\<^verbatim>\<open>not isinstance(transition["event"], str) or not transition["event"]\<close>.\<close>

definition invalid_event :: "yaml \<Rightarrow> py_exn + bool" where
  "invalid_event transition =
     exn_bind (getitem_str transition ''event'') (\<lambda>ev.
       if \<not> isinstance_str ev then Inr True
       else exn_bind (getitem_str transition ''event'') (\<lambda>ev'. Inr (\<not> py_bool ev')))"

definition msg_transition_fields :: string where
  "msg_transition_fields =
     ''[bold red]Error:[/bold red] Each transition must contain '' @ q @ ''from'' @ q
       @ '', '' @ q @ ''to'' @ q @ '', and '' @ q @ ''event'' @ q"

fun transitions_loop :: "(yaml \<Rightarrow> string) \<Rightarrow> scalar list \<Rightarrow> yaml list \<Rightarrow> bool option io" where
  "transitions_loop r state_set [] = ret None"
| "transitions_loop r state_set (transition # ts) =
     io_bind (lift (all_keys_in transition [''from'', ''to'', ''event''])) (\<lambda>complete.
       if \<not> complete then
         io_bind (console_print (Plain msg_transition_fields)) (\<lambda>_. ret (Some False))
       else
         io_bind (lift (invalid_state state_set transition)) (\<lambda>bad_state.
           if bad_state then
             io_bind (console_print (Plain
                 (''[bold red]Error:[/bold red] Invalid state in transition: ''
                    @ py_str r transition)))
               (\<lambda>_. ret (Some False))
           else
             io_bind (lift (invalid_event transition)) (\<lambda>bad_event.
               if bad_event then
                 io_bind (console_print (Plain
                     (''[bold red]Error:[/bold red] Event must be a non-empty string in transition: ''
                        @ py_str r transition)))
                   (\<lambda>_. ret (Some False))
               else transitions_loop r state_set ts)))"

text \<open>The body of the \<^verbatim>\<open>try\<close> block, in two parts: the checks on the loaded tree,
  and the whole body, which loads the file first.\<close>

definition protocol_checks :: "(yaml \<Rightarrow> string) \<Rightarrow> yaml \<Rightarrow> bool io" where
  "protocol_checks r content =
     io_bind (required_keys_loop content [''protocol_name'', ''states'', ''transitions''])
       (\<lambda>returned.
     case returned of Some b \<Rightarrow> ret b | None \<Rightarrow>
     io_bind (lift (getitem_str content ''states'')) (\<lambda>states.
     if not_nonempty_list states then
       io_bind (console_print (Plain
           ''[bold red]Error:[/bold red] States should be a non-empty list''))
         (\<lambda>_. ret False)
     else
     io_bind (lift (getitem_str content ''transitions'')) (\<lambda>transitions.
     if not_nonempty_list transitions then
       io_bind (console_print (Plain
           ''[bold red]Error:[/bold red] Transitions should be a non-empty list''))
         (\<lambda>_. ret False)
     else
     io_bind (lift (py_len states)) (\<lambda>n.
     io_bind (lift (py_set states)) (\<lambda>distinct_states.
     if n \<noteq> length distinct_states then
       io_bind (console_print (Plain ''[bold red]Error:[/bold red] Duplicate states found''))
         (\<lambda>_. ret False)
     else
     io_bind (lift (py_set states)) (\<lambda>state_set.
     io_bind (lift (state_with_no_transitions states transitions)) (\<lambda>lonely.
     if lonely \<noteq> [] then
       io_bind (lift (join_list '', '' lonely)) (\<lambda>names.
       io_bind (console_print (Plain
           (''[bold red]Error:[/bold red] States with no transitions: '' @ names)))
         (\<lambda>_. ret False))
     else
     io_bind (lift (py_iter transitions)) (\<lambda>ts.
     io_bind (transitions_loop r state_set ts) (\<lambda>returned'.
     case returned' of Some b \<Rightarrow> ret b | None \<Rightarrow> ret True)))))))))"

definition validate_protocol_body ::
  "(yaml \<Rightarrow> string) \<Rightarrow> (string \<Rightarrow> py_exn + yaml) \<Rightarrow> string \<Rightarrow> bool io" where
  "validate_protocol_body r load file_path =
     io_bind (open_and_load load file_path) (protocol_checks r)"

text \<open>\<^verbatim>\<open>except Exception as e\<close>: every exception of the body ends here.\<close>

definition validate_protocol_file ::
  "(yaml \<Rightarrow> string) \<Rightarrow> (string \<Rightarrow> py_exn + yaml) \<Rightarrow> string \<Rightarrow> bool io" where
  "validate_protocol_file r load file_path =
     (case validate_protocol_body r load file_path of
        (es, Inl e) \<Rightarrow>
          (es @ [Printed (WithExn ''[bold red]Error reading protocol file:[/bold red] '' e)],
           Inr False)
      | (es, Inr b) \<Rightarrow> (es, Inr b))"

section \<open>\<^verbatim>\<open>settings_read\<close> and \<^verbatim>\<open>validate_settings_file\<close>\<close>

fun settings_rows :: "(scalar \<times> yaml) list \<Rightarrow> py_exn + yaml list list" where
  "settings_rows [] = Inr []"
| "settings_rows ((machine, machine_data) # items) =
     exn_bind (getitem_str machine_data ''Initial_state'') (\<lambda>labels.
     exn_bind (str_join '', '' labels) (\<lambda>initial_state.
     exn_bind (settings_rows items) (\<lambda>rows.
       Inr ([YScalar machine, YStr initial_state] # rows))))"

definition settings_read :: "(string \<Rightarrow> py_exn + yaml) \<Rightarrow> string \<Rightarrow> unit io" where
  "settings_read load file_path =
     io_bind (open_and_load load file_path) (\<lambda>content.
     io_bind (console_print (Plain ''Imported Settings:'')) (\<lambda>_.
     io_bind (lift (py_items content)) (\<lambda>items.
     io_bind (lift (settings_rows items)) (\<lambda>rows.
       print_table [''Machine name'', ''Inital state''] rows))))"

text \<open>The validator returns the pair \<^verbatim>\<open>(True, "Settings file is valid.")\<close> on
  success and the plain \<^verbatim>\<open>False\<close> on failure. The caller takes the truth value of
  what it gets: a pair is true.\<close>

datatype verdict = RetPair bool string | RetBool bool

fun verdict_bool :: "verdict \<Rightarrow> bool" where
  "verdict_bool (RetPair b m) = True"
| "verdict_bool (RetBool b) = b"

definition msg_missing_initial :: "string \<Rightarrow> string" where
  "msg_missing_initial name =
     ''Machine '' @ q @ name @ q @ '' is missing an '' @ q @ ''Initial_state'' @ q @ ''.''"

definition msg_no_initial :: "string \<Rightarrow> string" where
  "msg_no_initial name = ''Machine '' @ q @ name @ q @ '' has no initial state defined.''"

fun machines_loop :: "(yaml \<Rightarrow> string) \<Rightarrow> (scalar \<times> yaml) list \<Rightarrow> py_exn + unit" where
  "machines_loop r [] = Inr ()"
| "machines_loop r ((machine_name, machine_data) # items) =
     exn_bind (str_in ''Initial_state'' machine_data) (\<lambda>present.
       if \<not> present then
         Inl (ValueError (msg_missing_initial (py_str r (YScalar machine_name))))
       else
         exn_bind (getitem_str machine_data ''Initial_state'') (\<lambda>initial.
           if \<not> py_bool initial then
             Inl (ValueError (msg_no_initial (py_str r (YScalar machine_name))))
           else machines_loop r items))"

text \<open>The body of the \<^verbatim>\<open>try\<close> block: the checks on the loaded tree, and the whole
  body.\<close>

definition settings_checks :: "(yaml \<Rightarrow> string) \<Rightarrow> yaml \<Rightarrow> verdict io" where
  "settings_checks r content =
     io_bind (lift (py_len content)) (\<lambda>n.
     if n < 2 then
       raise (ValueError ''There must be at least two machines in the settings file.'')
     else
     io_bind (lift (py_items content)) (\<lambda>items.
     io_bind (lift (machines_loop r items)) (\<lambda>_.
       ret (RetPair True ''Settings file is valid.''))))"

definition validate_settings_body ::
  "(yaml \<Rightarrow> string) \<Rightarrow> (string \<Rightarrow> py_exn + yaml) \<Rightarrow> string \<Rightarrow> verdict io" where
  "validate_settings_body r load file_path =
     io_bind (open_and_load load file_path) (settings_checks r)"

text \<open>\<^verbatim>\<open>except ValueError as e\<close>: only a \<^verbatim>\<open>ValueError\<close> ends here, any other
  exception goes on to the caller.\<close>

definition validate_settings_file ::
  "(yaml \<Rightarrow> string) \<Rightarrow> (string \<Rightarrow> py_exn + yaml) \<Rightarrow> string \<Rightarrow> verdict io" where
  "validate_settings_file r load file_path =
     (case validate_settings_body r load file_path of
        (es, Inl e) \<Rightarrow>
          if is_ValueError e then
            (es @ [Printed (WithExn ''[bold red]Error in settings files[/bold red]: '' e)],
             Inr (RetBool False))
          else (es, Inl e)
      | (es, Inr v) \<Rightarrow> (es, Inr v))"

section \<open>\<^verbatim>\<open>main\<close>\<close>

definition msg_extension :: "string \<Rightarrow> string" where
  "msg_extension file_path =
     ''The file '' @ q @ file_path @ q
       @ '' is not a valid YAML file (must have .yaml or .yml extension).''"

fun extension_loop :: "string list \<Rightarrow> unit io" where
  "extension_loop [] = ret ()"
| "extension_loop (file_path # paths) =
     (if \<not> endswith_yaml file_path then raise (ValueError (msg_extension file_path))
      else extension_loop paths)"

text \<open>The body of the \<^verbatim>\<open>try\<close> block of \<^verbatim>\<open>main\<close>, after the arguments are parsed.
  \<^verbatim>\<open>a and b\<close> evaluates \<^verbatim>\<open>b\<close> only when \<^verbatim>\<open>a\<close> is true.\<close>

definition main_body ::
  "(yaml \<Rightarrow> string) \<Rightarrow> (string \<Rightarrow> py_exn + yaml) \<Rightarrow> string \<Rightarrow> string \<Rightarrow> unit io" where
  "main_body r load protocol settings =
     (if protocol = settings then
        raise (ValueError ''Protocol file and settings file cannot be the same.'')
      else
        io_bind (extension_loop [protocol, settings]) (\<lambda>_.
        io_bind (validate_protocol_file r load protocol) (\<lambda>protocol_ok.
        io_bind (if protocol_ok
                 then io_bind (validate_settings_file r load settings)
                        (\<lambda>v. ret (verdict_bool v))
                 else ret False) (\<lambda>both_ok.
          if both_ok then
            io_bind (protocol_read r load protocol) (\<lambda>_. settings_read load settings)
          else ret ()))))"

text \<open>The two handlers of \<^verbatim>\<open>main\<close> (\<^verbatim>\<open>except ValueError\<close>, then
  \<^verbatim>\<open>except Exception\<close>) print the same line.\<close>

definition main ::
  "(yaml \<Rightarrow> string) \<Rightarrow> (string \<Rightarrow> py_exn + yaml) \<Rightarrow> string \<Rightarrow> string \<Rightarrow> unit io" where
  "main r load protocol settings =
     (case main_body r load protocol settings of
        (es, Inl e) \<Rightarrow>
          if is_ValueError e then
            (es @ [Printed (WithExn ''[bold red]Error[/bold red]: '' e)], Inr ())
          else (es @ [Printed (WithExn ''[bold red]Error[/bold red]: '' e)], Inr ())
      | (es, Inr u) \<Rightarrow> (es, Inr u))"


section \<open>Example inputs\<close>

text \<open>A disk holding the given files; opening any other path fails.\<close>

definition disk :: "(string \<times> yaml) list \<Rightarrow> string \<Rightarrow> py_exn + yaml" where
  "disk files path = (case map_of files path of None \<Rightarrow> Inl OSError | Some d \<Rightarrow> Inr d)"

text \<open>The text of a value that is not a string, in the examples.\<close>

definition demo_repr :: "yaml \<Rightarrow> string" where
  "demo_repr v = ''<object>''"

definition mk_transition :: "string \<Rightarrow> string \<Rightarrow> string \<Rightarrow> yaml" where
  "mk_transition f t ev = YDict [(SStr ''from'', YStr f), (SStr ''to'', YStr t), (SStr ''event'', YStr ev)]"

definition protocol_doc :: "string list \<Rightarrow> yaml list \<Rightarrow> yaml" where
  "protocol_doc states transitions =
     YDict [(SStr ''protocol_name'', YStr ''demo''),
            (SStr ''states'', YList (map YStr states)),
            (SStr ''transitions'', YList transitions)]"

text \<open>States \<open>[A, B]\<close> and the single transition \<open>{from: A, to: B, event: go}\<close>.\<close>

definition one_way :: yaml where
  "one_way = protocol_doc [''A'', ''B''] [mk_transition ''A'' ''B'' ''go'']"

section \<open>Shapes of event sequences\<close>

fun is_print :: "event \<Rightarrow> bool" where
  "is_print (Printed l) = True"
| "is_print e = False"

text \<open>A computation that does nothing to the outside world but print lines.\<close>

definition prints :: "'a io \<Rightarrow> bool" where
  "prints m = list_all is_print (fst m)"

section \<open>More example inputs\<close>

text \<open>A protocol that passes validation: \<open>A\<close> and \<open>B\<close>, with a transition each way.\<close>

definition two_way :: yaml where
  "two_way = protocol_doc [''A'', ''B'']
     [mk_transition ''A'' ''B'' ''go'', mk_transition ''B'' ''A'' ''back'']"

definition machine :: "string \<Rightarrow> string list \<Rightarrow> scalar \<times> yaml" where
  "machine name initial = (SStr name, YDict [(SStr ''Initial_state'', YList (map YStr initial))])"

text \<open>Settings that pass validation, and settings whose two machines have no
  \<^verbatim>\<open>Initial_state\<close> field.\<close>

definition two_machines :: yaml where
  "two_machines = YDict [machine ''m1'' [''A''], machine ''m2'' [''A'', ''B'']]"


text \<open>The line that the handlers of \<^verbatim>\<open>main\<close> print for an exception.\<close>

abbreviation main_error :: "py_exn \<Rightarrow> event" where
  "main_error e \<equiv> Printed (WithExn ''[bold red]Error[/bold red]: '' e)"

section \<open>Notions used to state the properties\<close>

fun is_dict :: "yaml \<Rightarrow> bool" where
  "is_dict (YDict kvs) = True"
| "is_dict c = False"

text \<open>The field \<open>k\<close> of a mapping, or \<open>d\<close> when it has none: what \<^verbatim>\<open>t.get(k, d)\<close>
  returns on a mapping.\<close>

fun lookup_or :: "yaml \<Rightarrow> string \<Rightarrow> yaml \<Rightarrow> yaml" where
  "lookup_or (YDict kvs) k d = (case map_of kvs (SStr k) of None \<Rightarrow> d | Some v \<Rightarrow> v)"
| "lookup_or c k d = d"

text \<open>The transitions that the projector lists in the row of a state, and what it
  writes for each of them in the Event and in the Transition cell.\<close>

definition leaving :: "yaml \<Rightarrow> yaml list \<Rightarrow> yaml list" where
  "leaving state ts = filter (\<lambda>t. py_eq (lookup_or t ''from'' YNone) state) ts"







section \<open>The six checks of the protocol validator, as the specification lists them\<close>

fun is_scalar :: "yaml \<Rightarrow> bool" where
  "is_scalar (YScalar a) = True"
| "is_scalar c = False"

fun the_list :: "yaml \<Rightarrow> yaml list" where
  "the_list (YList xs) = xs"
| "the_list c = []"

text \<open>A sequence of length at least 1.\<close>

fun nonempty_seq :: "yaml \<Rightarrow> bool" where
  "nonempty_seq (YList (x # xs)) = True"
| "nonempty_seq c = False"

text \<open>
  The documents the checks are stated for: the state labels are strings, and every
  transition is a mapping with a \<^verbatim>\<open>from\<close> field whose \<^verbatim>\<open>from\<close> and \<^verbatim>\<open>to\<close> are
  scalars. (Other fields may be missing, and nothing is assumed when \<^verbatim>\<open>states\<close> or
  \<^verbatim>\<open>transitions\<close> is absent or not a sequence.)
\<close>

definition transition_shaped :: "yaml \<Rightarrow> bool" where
  "transition_shaped t =
     (is_dict t \<and> str_in ''from'' t = Inr True
      \<and> is_scalar (lookup_or t ''from'' YNone) \<and> is_scalar (lookup_or t ''to'' YNone))"

definition protocol_shaped :: "(scalar \<times> yaml) list \<Rightarrow> bool" where
  "protocol_shaped kvs =
     (list_all isinstance_str (the_list (lookup_or (YDict kvs) ''states'' YNone))
      \<and> list_all transition_shaped (the_list (lookup_or (YDict kvs) ''transitions'' YNone)))"

text \<open>Check 1: the top-level keys are present. The first missing one is reported.\<close>

definition check_keys :: "(scalar \<times> yaml) list \<Rightarrow> string option" where
  "check_keys kvs =
     map_option (\<lambda>k. ''[bold red]Error:[/bold red] Missing key: '' @ k)
       (find (\<lambda>k. map_of kvs (SStr k) = None) [''protocol_name'', ''states'', ''transitions''])"

text \<open>Checks 2 and 3: \<^verbatim>\<open>states\<close> and \<^verbatim>\<open>transitions\<close> are sequences of length at
  least 1.\<close>

definition check_states :: "(scalar \<times> yaml) list \<Rightarrow> string option" where
  "check_states kvs =
     (if nonempty_seq (lookup_or (YDict kvs) ''states'' YNone) then None
      else Some ''[bold red]Error:[/bold red] States should be a non-empty list'')"

definition check_transitions :: "(scalar \<times> yaml) list \<Rightarrow> string option" where
  "check_transitions kvs =
     (if nonempty_seq (lookup_or (YDict kvs) ''transitions'' YNone) then None
      else Some ''[bold red]Error:[/bold red] Transitions should be a non-empty list'')"

text \<open>Check 4: no duplicate state, by comparing the length with the cardinality of the
  set.\<close>

definition check_duplicates :: "(scalar \<times> yaml) list \<Rightarrow> string option" where
  "check_duplicates kvs =
     (let states = the_list (lookup_or (YDict kvs) ''states'' YNone)
      in if length states \<noteq> card (set states)
         then Some ''[bold red]Error:[/bold red] Duplicate states found'' else None)"

text \<open>Check 5: every state is the \<^verbatim>\<open>from\<close> of some transition. All the states that
  are not are listed in the message.\<close>

definition lonely_states :: "yaml list \<Rightarrow> yaml list \<Rightarrow> yaml list" where
  "lonely_states states ts = filter (\<lambda>s. leaving s ts = []) states"

definition check_outgoing :: "(yaml \<Rightarrow> string) \<Rightarrow> (scalar \<times> yaml) list \<Rightarrow> string option" where
  "check_outgoing r kvs =
     (let states = the_list (lookup_or (YDict kvs) ''states'' YNone);
          ts = the_list (lookup_or (YDict kvs) ''transitions'' YNone)
      in if lonely_states states ts \<noteq> []
         then Some (''[bold red]Error:[/bold red] States with no transitions: ''
                      @ join_strs '', '' (map (py_str r) (lonely_states states ts)))
         else None)"

text \<open>Check 6, for one transition: it has the three fields; \<^verbatim>\<open>from\<close> and \<^verbatim>\<open>to\<close> are
  declared states; \<^verbatim>\<open>event\<close> is a non-empty string. Then for all of them: the first
  transition that fails is reported.\<close>

definition transition_error :: "(yaml \<Rightarrow> string) \<Rightarrow> yaml list \<Rightarrow> yaml \<Rightarrow> string option" where
  "transition_error r states t =
     (if \<not> (str_in ''from'' t = Inr True \<and> str_in ''to'' t = Inr True
             \<and> str_in ''event'' t = Inr True)
      then Some msg_transition_fields
      else if lookup_or t ''from'' YNone \<notin> set states \<or> lookup_or t ''to'' YNone \<notin> set states
      then Some (''[bold red]Error:[/bold red] Invalid state in transition: '' @ py_str r t)
      else if \<not> (isinstance_str (lookup_or t ''event'' YNone)
                  \<and> lookup_or t ''event'' YNone \<noteq> YStr [])
      then Some (''[bold red]Error:[/bold red] Event must be a non-empty string in transition: ''
                   @ py_str r t)
      else None)"

fun first_failure :: "'a option list \<Rightarrow> 'a option" where
  "first_failure [] = None"
| "first_failure (None # cs) = first_failure cs"
| "first_failure (Some m # cs) = Some m"

definition check_each_transition ::
  "(yaml \<Rightarrow> string) \<Rightarrow> (scalar \<times> yaml) list \<Rightarrow> string option" where
  "check_each_transition r kvs =
     first_failure
       (map (transition_error r (the_list (lookup_or (YDict kvs) ''states'' YNone)))
          (the_list (lookup_or (YDict kvs) ''transitions'' YNone)))"

text \<open>The six checks in their order; the verdict is given by the first that fails.\<close>

definition six_checks :: "(yaml \<Rightarrow> string) \<Rightarrow> (scalar \<times> yaml) list \<Rightarrow> string option list" where
  "six_checks r kvs =
     [check_keys kvs, check_states kvs, check_transitions kvs, check_duplicates kvs,
      check_outgoing r kvs, check_each_transition r kvs]"

text \<open>A set of strings, in the representation of sets used here.\<close>

definition str_set :: "scalar list \<Rightarrow> bool" where
  "str_set S = (distinct S \<and> (\<forall>a \<in> set S. \<exists>n. a = SStr n))"

section \<open>Transitions without a \<^verbatim>\<open>from\<close> field\<close>

definition no_from :: yaml where
  "no_from = YDict [(SStr ''to'', YStr ''A''), (SStr ''event'', YStr ''go'')]"

text \<open>One state \<open>A\<close>; the transition without \<^verbatim>\<open>from\<close> comes after, or before, a
  transition that leaves \<open>A\<close>.\<close>

definition late_no_from :: yaml where
  "late_no_from = protocol_doc [''A''] [mk_transition ''A'' ''A'' ''go'', no_from]"

definition early_no_from :: yaml where
  "early_no_from = protocol_doc [''A''] [no_from, mk_transition ''A'' ''A'' ''go'']"

abbreviation read_error :: "py_exn \<Rightarrow> event" where
  "read_error e \<equiv>
     Printed (WithExn ''[bold red]Error reading protocol file:[/bold red] '' e)"

section \<open>Basic facts about the effect layer\<close>

lemma exn_bind_Inl [simp]: "exn_bind (Inl e) f = Inl e"
  by (simp add: exn_bind_def)

lemma exn_bind_Inr [simp]: "exn_bind (Inr a) f = f a"
  by (simp add: exn_bind_def)

lemma io_bind_ret [simp]: "io_bind (ret a) f = f a"
  by (simp add: io_bind_def ret_def)

lemma io_bind_raise [simp]: "io_bind (raise e) f = raise e"
  by (simp add: io_bind_def raise_def)

lemma io_bind_lift_Inr [simp]: "io_bind (lift (Inr a)) f = f a"
  by (simp add: io_bind_def lift_def)

lemma io_bind_lift_Inl [simp]: "io_bind (lift (Inl e)) f = raise e"
  by (simp add: io_bind_def lift_def raise_def)

lemma io_bind_print [simp]:
  "io_bind (console_print l) f = (Printed l # fst (f ()), snd (f ()))"
  by (simp add: io_bind_def console_print_def)

lemma io_bind_Inl [simp]: "io_bind (es, Inl e) f = (es, Inl e)"
  by (simp add: io_bind_def)

lemma io_bind_Inr [simp]: "io_bind (es, Inr a) f = (es @ fst (f a), snd (f a))"
  by (simp add: io_bind_def)

lemma io_bind_open:
  "io_bind (open_and_load load p) f =
     (case load p of
        Inl e \<Rightarrow> ([Opened p], Inl e)
      | Inr c \<Rightarrow> (Opened p # fst (f c), snd (f c)))"
  by (simp add: io_bind_def open_and_load_def split: sum.splits)

lemma fst_ret [simp]: "fst (ret a) = []" and snd_ret [simp]: "snd (ret a) = Inr a"
  by (simp_all add: ret_def)

lemma fst_raise [simp]: "fst (raise e) = []" and snd_raise [simp]: "snd (raise e) = Inl e"
  by (simp_all add: raise_def)

section \<open>What the validators do to the outside world\<close>

lemma prints_ret: "prints (ret a)"
  by (simp add: prints_def)

lemma prints_raise: "prints (raise e)"
  by (simp add: prints_def)

lemma prints_lift: "prints (lift m)"
  by (simp add: prints_def lift_def)

lemma prints_console_print: "prints (console_print l)"
  by (simp add: prints_def console_print_def)

lemma prints_bind: "prints m \<Longrightarrow> (\<And>a. prints (f a)) \<Longrightarrow> prints (io_bind m f)"
  by (simp add: prints_def io_bind_def split: sum.splits)

lemma prints_if: "(c \<Longrightarrow> prints a) \<Longrightarrow> (\<not> c \<Longrightarrow> prints b) \<Longrightarrow> prints (if c then a else b)"
  by simp

lemma prints_case_option:
  "prints a \<Longrightarrow> (\<And>x. prints (f x)) \<Longrightarrow> prints (case v of None \<Rightarrow> a | Some x \<Rightarrow> f x)"
  by (simp split: option.splits)

lemmas prints_intros =
  prints_ret prints_raise prints_lift prints_console_print prints_bind prints_if
  prints_case_option

lemma required_keys_loop_prints: "prints (required_keys_loop c ks)"
  by (induction ks) (auto intro!: prints_intros)

lemma transitions_loop_prints: "prints (transitions_loop r S ts)"
  by (induction ts) (auto intro!: prints_intros)

lemma protocol_checks_prints: "prints (protocol_checks r c)"
  unfolding protocol_checks_def
  by (intro prints_intros required_keys_loop_prints transitions_loop_prints)

lemma settings_checks_prints: "prints (settings_checks r c)"
  unfolding settings_checks_def by (intro prints_intros)

lemma validate_protocol_file_returns:
  "\<exists>es b. validate_protocol_file r load p = (Opened p # es, Inr b) \<and> list_all is_print es"
proof (cases "load p")
  case (Inl e)
  then show ?thesis
    by (auto simp: validate_protocol_file_def validate_protocol_body_def io_bind_open)
next
  case (Inr c)
  obtain es res where c: "protocol_checks r c = (es, res)" by (cases "protocol_checks r c")
  with protocol_checks_prints [of r c] have "list_all is_print es" by (simp add: prints_def)
  with Inr c show ?thesis
    by (cases res) (auto simp: validate_protocol_file_def validate_protocol_body_def io_bind_open)
qed

lemma validate_settings_file_events:
  "\<exists>es res. validate_settings_file r load p = (Opened p # es, res) \<and> list_all is_print es"
proof (cases "load p")
  case (Inl e)
  then show ?thesis
    by (simp add: validate_settings_file_def validate_settings_body_def io_bind_open)
next
  case (Inr c)
  obtain es res where c: "settings_checks r c = (es, res)" by (cases "settings_checks r c")
  with settings_checks_prints [of r c] have "list_all is_print es" by (simp add: prints_def)
  with Inr c show ?thesis
    by (cases res) (simp_all add: validate_settings_file_def validate_settings_body_def io_bind_open)
qed

lemma is_print_Opened: "list_all is_print es \<Longrightarrow> Opened f \<notin> set es"
  by (auto simp: list_all_iff)

lemma is_print_Table: "list_all is_print es \<Longrightarrow> PrintedTable c rs \<notin> set es"
  by (auto simp: list_all_iff)

lemma extension_loop_ok:
  "endswith_yaml p \<Longrightarrow> endswith_yaml s \<Longrightarrow> extension_loop [p, s] = ret ()"
  by simp

lemma main_body_prechecked:
  assumes "p \<noteq> s" "endswith_yaml p" "endswith_yaml s"
  shows "main_body r load p s =
     io_bind (validate_protocol_file r load p) (\<lambda>protocol_ok.
     io_bind (if protocol_ok
              then io_bind (validate_settings_file r load s) (\<lambda>v. ret (verdict_bool v))
              else ret False) (\<lambda>both_ok.
       if both_ok then io_bind (protocol_read r load p) (\<lambda>_. settings_read load s)
       else ret ()))"
  using assms by (simp add: main_body_def)

section \<open>The four ways through the driver once the precheck has passed\<close>

lemma main_when_protocol_fails:
  assumes "p \<noteq> s" "endswith_yaml p" "endswith_yaml s"
    and "validate_protocol_file r load p = (es1, Inr False)"
  shows "main r load p s = (es1, Inr ())"
  using assms by (simp add: main_def main_body_prechecked)

lemma main_when_settings_raises:
  assumes "p \<noteq> s" "endswith_yaml p" "endswith_yaml s"
    and "validate_protocol_file r load p = (es1, Inr True)"
    and "validate_settings_file r load s = (es2, Inl e)"
  shows "main r load p s = (es1 @ es2 @ [main_error e], Inr ())"
  using assms by (simp add: main_def main_body_prechecked)

lemma main_when_settings_fails:
  assumes "p \<noteq> s" "endswith_yaml p" "endswith_yaml s"
    and "validate_protocol_file r load p = (es1, Inr True)"
    and "validate_settings_file r load s = (es2, Inr v)" "\<not> verdict_bool v"
  shows "main r load p s = (es1 @ es2, Inr ())"
  using assms by (simp add: main_def main_body_prechecked)

lemma main_when_valid:
  assumes "p \<noteq> s" "endswith_yaml p" "endswith_yaml s"
    and "validate_protocol_file r load p = (es1, Inr True)"
    and "validate_settings_file r load s = (es2, Inr v)" "verdict_bool v"
  shows "main r load p s =
     (es1 @ es2 @ fst (protocol_read r load p) @
        (case snd (protocol_read r load p) of
           Inl e \<Rightarrow> [main_error e]
         | Inr u \<Rightarrow> fst (settings_read load s) @
             (case snd (settings_read load s) of Inl e \<Rightarrow> [main_error e] | Inr u' \<Rightarrow> [])),
      Inr ())"
  using assms
  by (simp add: main_def main_body_prechecked io_bind_def split: sum.splits prod.splits)


section \<open>Unfolding the program on a concrete input\<close>

lemmas eval_defs =
  validate_protocol_file_def validate_protocol_body_def io_bind_open protocol_checks_def
  not_nonempty_list_def py_set_def state_with_no_transitions_def invalid_state_def
  invalid_event_def isinstance_str_def set_contains_def sc_eq_def join_list_def str_join_def
  ret_def raise_def
  validate_settings_file_def validate_settings_body_def settings_checks_def
  protocol_read_def settings_read_def state_row_def print_table_def
  disk_def protocol_doc_def mk_transition_def machine_def

section \<open>The projector on transitions that are mappings\<close>




section \<open>The loop over the machines\<close>


section \<open>The loops of the protocol validator on documents of the expected shape\<close>

lemma required_keys_loop_dict:
  "required_keys_loop (YDict kvs) ks =
     (case find (\<lambda>k. map_of kvs (SStr k) = None) ks of
        None \<Rightarrow> ret None
      | Some k \<Rightarrow>
          ([Printed (Plain (''[bold red]Error:[/bold red] Missing key: '' @ k))],
           Inr (Some False)))"
  by (induction ks) (auto simp: map_of_eq_None_iff ret_def image_iff)

lemma isinstance_str_iff: "isinstance_str v \<longleftrightarrow> (\<exists>s. v = YStr s)"
  by (auto simp: isinstance_str_def split: yaml.splits scalar.splits)

lemma sc_eq_SStr [simp]: "sc_eq (SStr n) a \<longleftrightarrow> a = SStr n"
  by (cases a) (auto simp: sc_eq_def)

lemma set_contains_str_set:
  assumes "str_set S"
  shows "set_contains S a \<longleftrightarrow> a \<in> set S"
proof
  assume "set_contains S a"
  then obtain b where b: "b \<in> set S" "sc_eq b a" by (auto simp: set_contains_def)
  with assms obtain n where "b = SStr n" by (auto simp: str_set_def)
  with b show "a \<in> set S" by simp
next
  assume a: "a \<in> set S"
  with assms obtain n where "a = SStr n" by (auto simp: str_set_def)
  then have "sc_eq a a" by simp
  with a show "set_contains S a" by (auto simp: set_contains_def)
qed

lemma set_from_strings:
  "list_all isinstance_str xs \<Longrightarrow> str_set S \<Longrightarrow>
   \<exists>S'. set_from S xs = Inr S' \<and> str_set S' \<and> YScalar ` set S' = YScalar ` set S \<union> set xs"
proof (induction xs arbitrary: S)
  case Nil
  then show ?case by simp
next
  case (Cons x xs)
  then obtain n where x: "x = YStr n" by (auto simp: isinstance_str_iff)
  let ?S1 = "if set_contains S (SStr n) then S else S @ [SStr n]"
  have s1: "str_set ?S1"
    using Cons.prems(2) by (auto simp: str_set_def set_contains_str_set [OF Cons.prems(2)])
  have "set ?S1 = insert (SStr n) (set S)"
    by (auto simp: set_contains_str_set [OF Cons.prems(2)])
  moreover from Cons.IH [OF _ s1] Cons.prems(1)
  obtain S' where "set_from ?S1 xs = Inr S'" "str_set S'"
    "YScalar ` set S' = YScalar ` set ?S1 \<union> set xs" by auto
  ultimately show ?case using x by auto
qed

lemma py_set_strings:
  assumes "list_all isinstance_str xs"
  shows "\<exists>S. py_set (YList xs) = Inr S \<and> length S = card (set xs)
           \<and> (\<forall>a. set_contains S a \<longleftrightarrow> YScalar a \<in> set xs)"
proof -
  have "str_set []" by (simp add: str_set_def)
  from set_from_strings [OF assms this]
  obtain S where S: "set_from [] xs = Inr S" "str_set S" "YScalar ` set S = set xs" by auto
  have "length S = card (set S)"
    using S(2) by (simp add: str_set_def distinct_card)
  also have "\<dots> = card (YScalar ` set S)"
    by (simp add: card_image inj_on_def)
  finally have "length S = card (set xs)" using S(3) by simp
  moreover have "set_contains S a \<longleftrightarrow> YScalar a \<in> set xs" for a
    using S(3) set_contains_str_set [OF S(2)] by auto
  ultimately show ?thesis using S(1) by (auto simp: py_set_def)
qed

lemma getitem_dict: "is_dict t \<Longrightarrow> str_in k t = Inr True \<Longrightarrow> getitem_str t k = Inr (lookup_or t k d)"
  by (cases t) (auto split: option.splits dest: weak_map_of_SomeI)




lemma all_keys_in_dict:
  "all_keys_in (YDict kvs) ks = Inr (\<forall>k \<in> set ks. str_in k (YDict kvs) = Inr True)"
  by (induction ks) auto

lemma transition_step_shaped:
  assumes t: "transition_shaped t"
    and S: "\<forall>a. set_contains S a \<longleftrightarrow> YScalar a \<in> set sts"
  shows "all_keys_in t [''from'', ''to'', ''event''] =
           Inr (str_in ''from'' t = Inr True \<and> str_in ''to'' t = Inr True
                \<and> str_in ''event'' t = Inr True)"
    and "str_in ''to'' t = Inr True \<Longrightarrow>
         invalid_state S t =
           Inr (lookup_or t ''from'' YNone \<notin> set sts \<or> lookup_or t ''to'' YNone \<notin> set sts)"
    and "str_in ''event'' t = Inr True \<Longrightarrow>
         invalid_event t =
           Inr (\<not> (isinstance_str (lookup_or t ''event'' YNone)
                   \<and> lookup_or t ''event'' YNone \<noteq> YStr []))"
proof -
  from t obtain kvs where k: "t = YDict kvs" by (cases t) (auto simp: transition_shaped_def)
  show "all_keys_in t [''from'', ''to'', ''event''] =
           Inr (str_in ''from'' t = Inr True \<and> str_in ''to'' t = Inr True
                \<and> str_in ''event'' t = Inr True)"
    unfolding k all_keys_in_dict by simp
  from t have d: "is_dict t" and f: "str_in ''from'' t = Inr True"
    by (simp_all add: transition_shaped_def)
  from t obtain a b where a: "lookup_or t ''from'' YNone = YScalar a"
    and b: "lookup_or t ''to'' YNone = YScalar b"
    by (cases "lookup_or t ''from'' YNone"; cases "lookup_or t ''to'' YNone")
       (auto simp: transition_shaped_def)
  show "invalid_state S t =
           Inr (lookup_or t ''from'' YNone \<notin> set sts \<or> lookup_or t ''to'' YNone \<notin> set sts)"
    if "str_in ''to'' t = Inr True"
    using that S a b
    by (simp add: invalid_state_def getitem_dict [OF d f, of YNone] getitem_dict [OF d that, of YNone])
  show "invalid_event t =
           Inr (\<not> (isinstance_str (lookup_or t ''event'' YNone)
                   \<and> lookup_or t ''event'' YNone \<noteq> YStr []))"
    if "str_in ''event'' t = Inr True"
    using that
    by (auto simp: invalid_event_def getitem_dict [OF d that, of YNone] isinstance_str_iff)
qed




lemmas check_defs =
  six_checks_def check_keys_def check_states_def check_transitions_def check_duplicates_def
  check_outgoing_def check_each_transition_def lonely_states_def leaving_def
  transition_error_def protocol_shaped_def transition_shaped_def isinstance_str_def
  protocol_doc_def mk_transition_def sc_eq_def

section \<open>A transition without \<^verbatim>\<open>from\<close> after transitions that have one\<close>

lemma any_from_prefix:
  "list_all transition_shaped pre \<Longrightarrow>
   any_from s (pre @ rest) = (if leaving s pre \<noteq> [] then Inr True else any_from s rest)"
  by (induction pre) (auto simp: transition_shaped_def leaving_def getitem_dict [where d = YNone])

lemma getitem_absent:
  "is_dict t \<Longrightarrow> str_in k t = Inr False \<Longrightarrow> getitem_str t k = Inl (KeyError k)"
  by (cases t) (auto simp: map_of_eq_None_iff split: option.splits)

lemma states_without_missing_from:
  assumes "list_all transition_shaped pre" "is_dict t" "str_in ''from'' t = Inr False"
  shows "states_without (YList (pre @ t # post)) sts =
     (if lonely_states sts pre \<noteq> [] then Inl (KeyError ''from'') else Inr [])"
proof (induction sts)
  case Nil
  then show ?case by (simp add: lonely_states_def)
next
  case (Cons s sts)
  have a: "any_from s (pre @ t # post) =
      (if leaving s pre \<noteq> [] then Inr True else Inl (KeyError ''from''))"
    using assms by (simp add: any_from_prefix getitem_absent)
  show ?case
    using Cons by (simp add: a lonely_states_def)
qed

lemma transitions_loop_prefix:
  assumes S: "\<forall>a. set_contains S a \<longleftrightarrow> YScalar a \<in> set sts"
  shows "list_all transition_shaped pre \<Longrightarrow>
     first_failure (map (transition_error r sts) pre) = None \<Longrightarrow>
     transitions_loop r S (pre @ rest) = transitions_loop r S rest"
proof (induction pre)
  case Nil
  then show ?case by simp
next
  case (Cons t pre)
  then have t: "transition_shaped t" and pre: "list_all transition_shaped pre" by simp_all
  from Cons.prems(2) have e: "transition_error r sts t = None"
    and f: "first_failure (map (transition_error r sts) pre) = None"
    by (cases "transition_error r sts t"; simp)+
  note step = transition_step_shaped [OF t S]
  from e have c: "str_in ''from'' t = Inr True" "str_in ''to'' t = Inr True"
    "str_in ''event'' t = Inr True"
    by (auto simp: transition_error_def split: if_splits)
  from e c have ok:
    "\<not> (lookup_or t ''from'' YNone \<notin> set sts \<or> lookup_or t ''to'' YNone \<notin> set sts)"
    "isinstance_str (lookup_or t ''event'' YNone) \<and> lookup_or t ''event'' YNone \<noteq> YStr []"
    by (auto simp: transition_error_def split: if_splits)
  show ?case
    using c ok Cons.IH [OF pre f]
    by (simp add: step(1) step(2) [OF c(2)] step(3) [OF c(3)] del: all_keys_in.simps)
qed

lemma transitions_loop_missing_from:
  assumes "is_dict t" "str_in ''from'' t = Inr False"
  shows "transitions_loop r S (t # post) = ([Printed (Plain msg_transition_fields)], Inr (Some False))"
  using assms by (simp add: ret_def)

section \<open>The protocol table of the one-way example\<close>

text \<open>
  C1. For the document with states \<open>[A, B]\<close> and the single transition
  \<open>{from: A, to: B, event: go}\<close>, \<^verbatim>\<open>protocol_read\<close> prints a table whose row for
  \<open>A\<close> has the Event cell \<open>go\<close> and the Transition cell \<open>(A -> B)\<close>. In the row for
  \<open>B\<close>, which has no outgoing transition, the two labels are appended in the other
  order than the columns: the Event cell (second column) holds \<open>No transitions\<close> and
  the Transition cell (third column) holds \<open>No event\<close>.
\<close>

theorem protocol_read_one_way:
  "protocol_read demo_repr (disk [(''protocol.yaml'', one_way)]) ''protocol.yaml'' =
     ([Opened ''protocol.yaml'',
       Printed (Plain ''Protocol: demo''),
       PrintedTable [''State'', ''Event'', ''Transition'']
         [[YStr ''A'', YStr ''go'', YStr ''(A -> B)''],
          [YStr ''B'', YStr ''No transitions'', YStr ''No event'']]],
      Inr ())"
  by code_simp

section \<open>Which exceptions the settings validator catches\<close>




section \<open>The six checks of the protocol validator\<close>



section \<open>The order of validation and projection\<close>

text \<open>
  C4. When the precheck has passed, the run of \<^verbatim>\<open>main\<close> starts with the events of the
  protocol validator. If that validator fails, the run is over: the settings validator is
  not invoked and the settings file is never opened. A table is printed only when both
  validators have succeeded; and then the run goes on with the protocol projector followed
  by the settings projector, in that order and with no further test in between (the
  projector that follows is left out only when the one before it raises, which the driver
  reports).
\<close>

theorem main_runs_in_order:
  assumes "p \<noteq> s" "endswith_yaml p" "endswith_yaml s"
  shows
   "(\<exists>rest. fst (main r load p s) = fst (validate_protocol_file r load p) @ rest)
    \<and> (snd (validate_protocol_file r load p) = Inr False \<longrightarrow>
         main r load p s = (fst (validate_protocol_file r load p), Inr ())
         \<and> Opened s \<notin> set (fst (main r load p s)))
    \<and> ((\<exists>c rs. PrintedTable c rs \<in> set (fst (main r load p s))) \<longrightarrow>
         snd (validate_protocol_file r load p) = Inr True
         \<and> (\<exists>v. snd (validate_settings_file r load s) = Inr v \<and> verdict_bool v))
    \<and> (snd (validate_protocol_file r load p) = Inr True
         \<and> snd (validate_settings_file r load s) = Inr v \<and> verdict_bool v \<longrightarrow>
         fst (main r load p s) =
           fst (validate_protocol_file r load p) @ fst (validate_settings_file r load s)
           @ fst (protocol_read r load p)
           @ (case snd (protocol_read r load p) of
                Inl e \<Rightarrow> [main_error e]
              | Inr u \<Rightarrow> fst (settings_read load s)
                  @ (case snd (settings_read load s) of
                       Inl e \<Rightarrow> [main_error e] | Inr u' \<Rightarrow> [])))"
proof -
  obtain es1 b1 where VP: "validate_protocol_file r load p = (Opened p # es1, Inr b1)"
    and P1: "list_all is_print es1"
    using validate_protocol_file_returns [of r load p] by blast
  obtain es2 r2 where VS: "validate_settings_file r load s = (Opened s # es2, r2)"
    and P2: "list_all is_print es2"
    using validate_settings_file_events [of r load s] by blast
  have T1: "\<And>c rs. PrintedTable c rs \<notin> set es1" and T2: "\<And>c rs. PrintedTable c rs \<notin> set es2"
    using P1 P2 by (simp_all add: is_print_Table)
  have O1: "Opened s \<notin> set es1"
    using P1 by (simp add: is_print_Opened)
  note pre = assms
  show ?thesis
  proof (cases b1)
    case False
    with VP have m: "main r load p s = (Opened p # es1, Inr ())"
      using main_when_protocol_fails [OF pre, of r load "Opened p # es1"] by simp
    show ?thesis
      using VP False m T1 O1 pre(1) by auto
  next
    case True
    note b1 = True
    show ?thesis
    proof (cases r2)
      case (Inl e)
      have m: "main r load p s = ((Opened p # es1) @ (Opened s # es2) @ [main_error e], Inr ())"
        using main_when_settings_raises [OF pre, of r load "Opened p # es1" "Opened s # es2" e]
          VP VS b1 Inl by simp
      show ?thesis
        using VP VS b1 Inl m T1 T2 by auto
    next
      case (Inr w)
      show ?thesis
      proof (cases "verdict_bool w")
        case False
        have m: "main r load p s = ((Opened p # es1) @ (Opened s # es2), Inr ())"
          using main_when_settings_fails [OF pre, of r load "Opened p # es1" "Opened s # es2" w]
            VP VS b1 Inr False by simp
        show ?thesis
          using VP VS b1 Inr False m T1 T2 by auto
      next
        case True
        have m: "main r load p s =
          ((Opened p # es1) @ (Opened s # es2) @ fst (protocol_read r load p) @
             (case snd (protocol_read r load p) of
                Inl e \<Rightarrow> [main_error e]
              | Inr u \<Rightarrow> fst (settings_read load s) @
                  (case snd (settings_read load s) of Inl e \<Rightarrow> [main_error e] | Inr u' \<Rightarrow> [])),
           Inr ())"
          using main_when_valid [OF pre, of r load "Opened p # es1" "Opened s # es2" w]
            VP VS b1 Inr True by simp
        show ?thesis
          using VP VS b1 Inr True m by auto
      qed
    qed
  qed
qed

theorem main_runs_in_order_witness:
  "fst (main demo_repr (disk [(''protocol.yaml'', two_way), (''settings.yaml'', two_machines)])
        ''protocol.yaml'' ''settings.yaml'') =
     [Opened ''protocol.yaml'', Opened ''settings.yaml'',
      Opened ''protocol.yaml'', Printed (Plain ''Protocol: demo''),
      PrintedTable [''State'', ''Event'', ''Transition'']
        [[YStr ''A'', YStr ''go'', YStr ''(A -> B)''],
         [YStr ''B'', YStr ''back'', YStr ''(B -> A)'']],
      Opened ''settings.yaml'', Printed (Plain ''Imported Settings:''),
      PrintedTable [''Machine name'', ''Inital state'']
        [[YStr ''m1'', YStr ''A''], [YStr ''m2'', YStr ''A, B'']]]"
proof -
  let ?d = "disk [(''protocol.yaml'', two_way), (''settings.yaml'', two_machines)]"
  have h: "''protocol.yaml'' \<noteq> ''settings.yaml''" "endswith_yaml ''protocol.yaml''"
    "endswith_yaml ''settings.yaml''"
    by (simp_all add: endswith_yaml_def suffix_def Cons_eq_append_conv)
  have vp: "validate_protocol_file demo_repr ?d ''protocol.yaml'' =
      ([Opened ''protocol.yaml''], Inr True)"
    by (simp add: eval_defs two_way_def)
  have vs: "validate_settings_file demo_repr ?d ''settings.yaml'' =
      ([Opened ''settings.yaml''], Inr (RetPair True ''Settings file is valid.''))"
    by (simp add: eval_defs two_machines_def)
  have pr: "protocol_read demo_repr ?d ''protocol.yaml'' =
      ([Opened ''protocol.yaml'', Printed (Plain ''Protocol: demo''),
        PrintedTable [''State'', ''Event'', ''Transition'']
         [[YStr ''A'', YStr ''go'', YStr ''(A -> B)''],
          [YStr ''B'', YStr ''back'', YStr ''(B -> A)'']]], Inr ())"
    by (simp add: eval_defs two_way_def)
  have sr: "settings_read ?d ''settings.yaml'' =
      ([Opened ''settings.yaml'', Printed (Plain ''Imported Settings:''),
       PrintedTable [''Machine name'', ''Inital state'']
         [[YStr ''m1'', YStr ''A''], [YStr ''m2'', YStr ''A, B'']]], Inr ())"
    by (simp add: eval_defs two_machines_def)
  note t = main_runs_in_order [OF h, of demo_repr ?d "RetPair True ''Settings file is valid.''"]
  have "fst (main demo_repr ?d ''protocol.yaml'' ''settings.yaml'') =
           fst (validate_protocol_file demo_repr ?d ''protocol.yaml'')
           @ fst (validate_settings_file demo_repr ?d ''settings.yaml'')
           @ fst (protocol_read demo_repr ?d ''protocol.yaml'')
           @ (case snd (protocol_read demo_repr ?d ''protocol.yaml'') of
                Inl e \<Rightarrow> [main_error e]
              | Inr u \<Rightarrow> fst (settings_read ?d ''settings.yaml'')
                  @ (case snd (settings_read ?d ''settings.yaml'') of
                       Inl e \<Rightarrow> [main_error e] | Inr u' \<Rightarrow> []))"
    by (rule t [THEN conjunct2, THEN conjunct2, THEN conjunct2, THEN mp])
       (simp only: vp vs snd_conv verdict_bool.simps simp_thms)
  then show ?thesis
    by (simp only: vp vs pr sr fst_conv snd_conv sum.case append.simps)
qed

section \<open>The protocol validator never raises\<close>



section \<open>The precheck of the driver\<close>



section \<open>The verdict of the settings validator\<close>




section \<open>The driver always returns\<close>



section \<open>A transition without a \<^verbatim>\<open>from\<close> field\<close>

text \<open>
  C9 (as amended). Take a protocol document that is well-formed (required keys present,
  a non-empty list of distinct state labels) except that one transition, a mapping, has
  no \<^verbatim>\<open>from\<close> field, the transitions before it being mappings that have one. If some
  state is the \<^verbatim>\<open>from\<close> of none of the transitions before it, the scan of check 5
  reaches it and raises \<^verbatim>\<open>KeyError\<close>, and the validator fails with the generic
  file-reading diagnostic. If every state is the \<^verbatim>\<open>from\<close> of a transition before it,
  check 5 never looks at it and passes; then, the transitions before it passing check 6,
  the validator fails with the check-6 message about the missing field, for this
  transition that lacks \<^verbatim>\<open>from\<close>.
\<close>

theorem missing_from_outcome:
  assumes load: "load p = Inr (YDict kvs)"
    and name: "map_of kvs (SStr ''protocol_name'') = Some n"
    and states: "map_of kvs (SStr ''states'') = Some (YList sts)"
    and sts: "sts \<noteq> []" "list_all isinstance_str sts" "distinct sts"
    and transitions: "map_of kvs (SStr ''transitions'') = Some (YList (pre @ t # post))"
    and pre: "list_all transition_shaped pre"
    and t: "is_dict t" "str_in ''from'' t = Inr False"
  shows "(lonely_states sts pre \<noteq> [] \<longrightarrow>
            validate_protocol_file r load p =
              ([Opened p, read_error (KeyError ''from'')], Inr False))
       \<and> (lonely_states sts pre = []
            \<and> first_failure (map (transition_error r sts) pre) = None \<longrightarrow>
            validate_protocol_file r load p =
              ([Opened p, Printed (Plain msg_transition_fields)], Inr False))"
proof -
  let ?keys = "[''protocol_name'', ''states'', ''transitions'']"
  have rk: "required_keys_loop (YDict kvs) ?keys = ret None"
    unfolding required_keys_loop_dict using name states transitions by simp
  from py_set_strings [OF sts(2)] obtain S where S: "py_set (YList sts) = Inr S"
    "length S = card (set sts)" "\<forall>a. set_contains S a \<longleftrightarrow> YScalar a \<in> set sts"
    by blast
  have card: "length sts = card (set sts)"
    using sts(3) by (simp add: distinct_card)
  have ne: "\<not> not_nonempty_list (YList sts)" "\<not> not_nonempty_list (YList (pre @ t # post))"
    using sts(1) by (simp_all add: not_nonempty_list_def)
  note sw = states_without_missing_from [OF pre t, of post sts]
  have front: "protocol_checks r (YDict kvs) =
     (if lonely_states sts pre \<noteq> [] then raise (KeyError ''from'')
      else io_bind (transitions_loop r S (pre @ t # post)) (\<lambda>returned'.
             case returned' of Some b \<Rightarrow> ret b | None \<Rightarrow> ret True))"
    using ne card
    by (simp add: protocol_checks_def rk states transitions S state_with_no_transitions_def sw
        del: required_keys_loop.simps)
  have vp: "validate_protocol_file r load p =
     (case protocol_checks r (YDict kvs) of
        (es, Inl e) \<Rightarrow> (Opened p # es @ [read_error e], Inr False)
      | (es, Inr b) \<Rightarrow> (Opened p # es, Inr b))"
    using load
    by (simp add: validate_protocol_file_def validate_protocol_body_def io_bind_open
        split: prod.splits sum.splits)
  show ?thesis
  proof (intro conjI impI)
    assume "lonely_states sts pre \<noteq> []"
    then show "validate_protocol_file r load p =
              ([Opened p, read_error (KeyError ''from'')], Inr False)"
      by (simp add: vp front raise_def)
  next
    assume a: "lonely_states sts pre = []
            \<and> first_failure (map (transition_error r sts) pre) = None"
    then have "transitions_loop r S (pre @ t # post) =
        ([Printed (Plain msg_transition_fields)], Inr (Some False))"
      using transitions_loop_prefix [OF S(3) pre, of r "t # post"]
        transitions_loop_missing_from [OF t, of r S post]
      by simp
    with a show "validate_protocol_file r load p =
              ([Opened p, Printed (Plain msg_transition_fields)], Inr False)"
      by (simp add: vp front ret_def)
  qed
qed

theorem missing_from_outcome_witness:
  "validate_protocol_file demo_repr (disk [(''protocol.yaml'', early_no_from)]) ''protocol.yaml''
     = ([Opened ''protocol.yaml'', read_error (KeyError ''from'')], Inr False)
   \<and> validate_protocol_file demo_repr (disk [(''protocol.yaml'', late_no_from)]) ''protocol.yaml''
     = ([Opened ''protocol.yaml'', Printed (Plain msg_transition_fields)], Inr False)"
proof -
  let ?go = "mk_transition ''A'' ''A'' ''go''"
  let ?early = "[(SStr ''protocol_name'', YStr ''demo''),
            (SStr ''states'', YList [YStr ''A'']),
            (SStr ''transitions'', YList [no_from, ?go])]"
  let ?late = "[(SStr ''protocol_name'', YStr ''demo''),
            (SStr ''states'', YList [YStr ''A'']),
            (SStr ''transitions'', YList [?go, no_from])]"
  have t: "is_dict no_from" "str_in ''from'' no_from = Inr False"
    by (simp_all add: no_from_def)
  have go: "list_all transition_shaped [?go]"
    "first_failure (map (transition_error demo_repr [YStr ''A'']) [?go]) = None"
    "lonely_states [YStr ''A''] [?go] = []" "lonely_states [YStr ''A''] [] \<noteq> []"
    by (simp_all add: check_defs)
  note early = missing_from_outcome
    [of "disk [(''protocol.yaml'', early_no_from)]" "''protocol.yaml''" ?early "YStr ''demo''"
      "[YStr ''A'']" "[]" no_from "[?go]" demo_repr]
  note late = missing_from_outcome
    [of "disk [(''protocol.yaml'', late_no_from)]" "''protocol.yaml''" ?late "YStr ''demo''"
      "[YStr ''A'']" "[?go]" no_from "[]" demo_repr]
  show ?thesis
    using early late t go
    by (simp add: disk_def early_no_from_def late_no_from_def protocol_doc_def isinstance_str_def)
qed

text \<open>
  The claim as stated fails: with the single state \<open>A\<close>, a first transition from \<open>A\<close>
  and a second one without \<^verbatim>\<open>from\<close>, the diagnostic is the check-6 message, not the
  generic one.
\<close>

theorem missing_from_reaches_field_check:
  "str_in ''from'' no_from = Inr False
   \<and> late_no_from = protocol_doc [''A''] [mk_transition ''A'' ''A'' ''go'', no_from]
   \<and> validate_protocol_file demo_repr (disk [(''protocol.yaml'', late_no_from)]) ''protocol.yaml''
     = ([Opened ''protocol.yaml'', Printed (Plain msg_transition_fields)], Inr False)"
  by (simp add: eval_defs late_no_from_def no_from_def)

section \<open>A transition without an event in the protocol table\<close>



end
